theory Spec2Isabelle
  imports Main "HOL-Library.Word"
begin

section \<open>The stock ledger of homework6.cpp\<close>

text \<open>
  The server keeps one process-wide table \<open>sm::stockMap\<close>, an
  \<open>std::unordered_map<std::string, Stock>\<close> from a stock's name to its entry. The
  functions \<open>createS\<close>, \<open>buyS\<close>, \<open>sellS\<close>, \<open>statusS\<close> and \<open>resetS\<close> read and
  change that table and write their answer into the reference parameter \<open>ret\<close>. Here
  each of them takes the table and returns the answer together with the table it leaves
  behind. This part of the development is about one call running from its first line to
  its last with no other thread in between.
\<close>

subsection \<open>Integers and their decimal text\<close>

text \<open>
  \<open>amount\<close> is a C++ \<open>int\<close>: 32 bits, two's complement. A \<open>32 word\<close> holds the
  bits; \<open>sint\<close> reads them as the signed value, \<open>-\<close> and \<open>+\<close> wrap around.
\<close>

type_synonym cint = "32 word"

definition digits :: string where
  "digits = ''0123456789''"

fun dec :: "nat \<Rightarrow> string" where
  "dec n = (if n < 10 then [digits ! n] else dec (n div 10) @ [digits ! (n mod 10)])"

declare dec.simps [simp del]

text \<open>\<open>std::to_string(int)\<close>: a minus sign for a negative value, then the decimal digits.\<close>

definition to_string :: "cint \<Rightarrow> string" where
  "to_string v =
     (if sint v < 0 then CHR ''-'' # dec (nat (- sint v)) else dec (nat (sint v)))"

subsection \<open>Stock entries and the table\<close>

text \<open>
  Modelled from the spec: the header Stock.h, which declares the class \<open>Stock\<close>, is not
  among the sources. The spec's data model gives a stock record a symbol (a string), a
  balance (a signed integer) and a guard; homework6.cpp uses exactly the members
  \<open>name\<close>, \<open>balance\<close> and \<open>mutex\<close>, and stores an \<open>int\<close> in \<open>balance\<close>. The guard has no
  content of its own in a run without other threads, so the record carries the two data
  members.
\<close>

record Stock =
  name :: string
  balance :: cint

type_synonym stockMap = "string \<rightharpoonup> Stock"

text \<open>
  Modelled from the spec: the entry that \<open>operator[]\<close> of the unordered map creates for a
  key that is absent is a value-initialised \<open>Stock\<close>; its members are declared in
  Stock.h. The name of such an entry is the empty string. homework6.cpp assigns the
  balance of a new entry before it reads it, the value 0 chosen here is never observed
  by the functions below.
\<close>

definition Stock0 :: Stock where
  "Stock0 = \<lparr>name = [], balance = 0\<rparr>"

text \<open>
  \<open>sm::stockMap[k].member = ...\<close>: \<open>operator[]\<close> yields a reference to the entry under
  \<open>k\<close>, inserting \<open>Stock0\<close> first when there is none; \<open>f\<close> is the assignment made
  through that reference. For \<open>Guard lock(sm::stockMap[k].mutex)\<close>, which locks the guard
  of the entry until the end of the block, \<open>f\<close> leaves the data members as they are.
\<close>

definition subscript :: "stockMap \<Rightarrow> string \<Rightarrow> (Stock \<Rightarrow> Stock) \<Rightarrow> stockMap" where
  "subscript m k f = (case m k of None \<Rightarrow> m(k \<mapsto> f Stock0) | Some r \<Rightarrow> m(k \<mapsto> f r))"

text \<open>\<open>sm::stockMap.find(stock) != sm::stockMap.end()\<close>\<close>

definition found :: "stockMap \<Rightarrow> string \<Rightarrow> bool" where
  "found m k = (case m k of None \<Rightarrow> False | Some _ \<Rightarrow> True)"

subsection \<open>The five operations\<close>

definition createS :: "string \<Rightarrow> cint \<Rightarrow> stockMap \<Rightarrow> string \<times> stockMap" where
  "createS stock amount m =
     (if found m stock then (''Stock '' @ stock @ '' already exists'', m)
      else
        let m1 = subscript m stock (\<lambda>r. r);
            m2 = subscript m1 stock (\<lambda>r. r\<lparr>name := stock\<rparr>);
            m3 = subscript m2 stock (\<lambda>r. r\<lparr>balance := amount\<rparr>)
        in (''Stock '' @ stock @ '' created with balance = '' @ to_string amount, m3))"

definition buyS :: "string \<Rightarrow> cint \<Rightarrow> stockMap \<Rightarrow> string \<times> stockMap" where
  "buyS stock amount m =
     (if \<not> found m stock then (''Stock not found'', m)
      else
        let m1 = subscript m stock (\<lambda>r. r);
            m2 = subscript m1 stock (\<lambda>r. r\<lparr>balance := balance r - amount\<rparr>)
        in (''Stock '' @ stock @ [CHR 0x27] @ ''s balance updated'', m2))"

definition sellS :: "string \<Rightarrow> cint \<Rightarrow> stockMap \<Rightarrow> string \<times> stockMap" where
  "sellS stock amount m =
     (if \<not> found m stock then (''Stock not found'', m)
      else
        let m1 = subscript m stock (\<lambda>r. r);
            m2 = subscript m1 stock (\<lambda>r. r\<lparr>balance := balance r + amount\<rparr>)
        in (''Stock '' @ stock @ [CHR 0x27] @ ''s balance updated'', m2))"

text \<open>
  \<open>statusS\<close> reads \<open>sm::stockMap[stock].balance\<close> in the branch where \<open>find\<close> has found
  the key, so \<open>operator[]\<close> inserts nothing there and the table stays as it is.
\<close>

definition statusS :: "string \<Rightarrow> stockMap \<Rightarrow> string \<times> stockMap" where
  "statusS stock m =
     (if \<not> found m stock then (''Stock not found'', m)
      else
        let m1 = subscript m stock (\<lambda>r. r)
        in (''Balance for stock '' @ stock @ '' = '' @
              to_string (case m1 stock of None \<Rightarrow> balance Stock0 | Some r \<Rightarrow> balance r), m1))"

definition resetS :: "stockMap \<Rightarrow> string \<times> stockMap" where
  "resetS m = (''Stocks reset'', Map.empty)"

subsection \<open>Dispatch\<close>

definition process :: "string \<Rightarrow> string \<Rightarrow> cint \<Rightarrow> stockMap \<Rightarrow> string \<times> stockMap" where
  "process trans' stock a m =
     (if trans' = ''create'' then createS stock a m
      else if trans' = ''buy'' then buyS stock a m
      else if trans' = ''sell'' then sellS stock a m
      else if trans' = ''status'' then statusS stock m
      else if trans' = ''reset'' then resetS m
      else (''Invalid request'', m))"

subsection \<open>Sequences of requests\<close>

text \<open>
  A request is the triple that \<open>process\<close> receives. \<open>run\<close> serves a list of requests one
  after the other, starting from the table \<open>m\<close>, and yields the table left at the end.
\<close>

type_synonym request = "string \<times> string \<times> cint"

fun run :: "request list \<Rightarrow> stockMap \<Rightarrow> stockMap" where
  "run [] m = m"
| "run ((t, s, a) # reqs) m = run reqs (snd (process t s a m))"

text \<open>Every entry of the table carries its own key as its name.\<close>

definition names_match :: "stockMap \<Rightarrow> bool" where
  "names_match m = (\<forall>s r. m s = Some r \<longrightarrow> name r = s)"

subsection \<open>Reading decimal text back\<close>

text \<open>
  The number that a string of decimal digits denotes, and the integer that an optional
  minus sign followed by digits denotes. The text that \<open>dec\<close> and \<open>to_string\<close> print
  for a number reads back as that number; the numeric extraction of the string streams
  below accumulates its digits with \<open>decimal_value\<close> as well.
\<close>

definition digit_value :: "char \<Rightarrow> nat" where
  "digit_value c = of_char c - 48"

definition decimal_value :: "string \<Rightarrow> nat" where
  "decimal_value cs = foldl (\<lambda>v c. 10 * v + digit_value c) 0 cs"

definition decimal_int :: "string \<Rightarrow> int" where
  "decimal_int cs =
     (case cs of
        [] \<Rightarrow> 0
      | c # ds \<Rightarrow> if c = CHR ''-'' then - int (decimal_value ds) else int (decimal_value cs))"

section \<open>The connection handler\<close>

text \<open>
  \<open>clientThread\<close> reads one request from the stream \<open>is\<close>, takes the three fields out of
  the request line with string streams, calls \<open>process\<close> and writes the response to \<open>os\<close>.
  The streams are the C++ standard library's; their behaviour is written out here as the
  standard gives it, for the classic locale.
\<close>

subsection \<open>Formatted extraction from a string stream\<close>

text \<open>\<open>isspace\<close> and \<open>isdigit\<close> of the classic locale.\<close>

definition isspace :: "char \<Rightarrow> bool" where
  "isspace c = (c \<in> set [CHR 0x20, CHR 0x09, CHR 0x0A, CHR 0x0B, CHR 0x0C, CHR 0x0D])"

definition isdigit :: "char \<Rightarrow> bool" where
  "isdigit c = (c \<in> set digits)"

text \<open>
  A \<open>std::istringstream\<close>: the characters not yet read and the two state bits that
  reading can set.
\<close>

record istringstream =
  buf :: string
  eofbit :: bool
  failbit :: bool

definition istringstream :: "string \<Rightarrow> istringstream" where
  "istringstream s = \<lparr>buf = s, eofbit = False, failbit = False\<rparr>"

definition good :: "istringstream \<Rightarrow> bool" where
  "good st = (\<not> eofbit st \<and> \<not> failbit st)"

text \<open>
  The sentry of a formatted input function: on a stream that is not good it sets
  \<open>failbit\<close> and fails; otherwise it skips white space, and fails with \<open>eofbit\<close> and
  \<open>failbit\<close> when that reaches the end.
\<close>

definition sentry :: "istringstream \<Rightarrow> bool \<times> istringstream" where
  "sentry st =
     (if \<not> good st then (False, st\<lparr>failbit := True\<rparr>)
      else
        let rest = dropWhile isspace (buf st)
        in if rest = [] then (False, st\<lparr>buf := [], eofbit := True, failbit := True\<rparr>)
           else (True, st\<lparr>buf := rest\<rparr>))"

text \<open>
  \<open>stream >> str\<close> for a \<open>std::string\<close>: when the sentry fails, \<open>str\<close> keeps its value;
  otherwise \<open>str\<close> becomes the characters up to the next white space or the end, and
  reaching the end sets \<open>eofbit\<close>.
\<close>

definition extract_string :: "istringstream \<Rightarrow> string \<Rightarrow> istringstream \<times> string" where
  "extract_string st str =
     (case sentry st of
        (False, st1) \<Rightarrow> (st1, str)
      | (True, st1) \<Rightarrow>
          let tok = takeWhile (\<lambda>c. \<not> isspace c) (buf st1);
              rest = dropWhile (\<lambda>c. \<not> isspace c) (buf st1)
          in (st1\<lparr>buf := rest, eofbit := (rest = []), failbit := (tok = [])\<rparr>, tok))"

text \<open>
  \<open>num_get\<close> for an \<open>unsigned int\<close> in base ten: an optional sign, then the digits that
  follow. No digit gives 0 and an error; a magnitude above \<open>UINT_MAX\<close> gives \<open>UINT_MAX\<close>
  and an error; otherwise the value, negated modulo \<open>2 ^ 32\<close> after a minus sign (as
  libstdc++ and libc++ do). The result is the value, the error flag and the characters
  left.
\<close>

definition num_get :: "string \<Rightarrow> (cint \<times> bool) \<times> string" where
  "num_get s =
     (let (neg, s1) =
            (case s of
               [] \<Rightarrow> (False, s)
             | c # cs \<Rightarrow>
                 if c = CHR ''-'' then (True, cs)
                 else if c = CHR ''+'' then (False, cs)
                 else (False, s));
          field = takeWhile isdigit s1;
          rest = dropWhile isdigit s1;
          v = decimal_value field
      in if field = [] then ((0, True), rest)
         else if 4294967295 < v then ((- 1, True), rest)
         else ((if neg then - of_nat v else of_nat v, False), rest))"

text \<open>
  \<open>stream >> val\<close> for an \<open>unsigned int\<close>: when the sentry fails, \<open>val\<close> keeps its
  value.
\<close>

definition extract_uint :: "istringstream \<Rightarrow> cint \<Rightarrow> istringstream \<times> cint" where
  "extract_uint st val =
     (case sentry st of
        (False, st1) \<Rightarrow> (st1, val)
      | (True, st1) \<Rightarrow>
          (case num_get (buf st1) of
             ((v, err), rest) \<Rightarrow> (st1\<lparr>buf := rest, eofbit := (rest = []), failbit := err\<rparr>, v)))"

text \<open>\<open>std::replace(url.begin(), url.end(), old, new)\<close>\<close>

definition replace :: "char \<Rightarrow> char \<Rightarrow> string \<Rightarrow> string" where
  "replace old new s = map (\<lambda>c. if c = old then new else c) s"

subsection \<open>From the request line to the three fields\<close>

text \<open>
  Lines 167 to 174 of \<open>clientThread\<close>. \<open>url_decode\<close> is defined in main.cpp, which is
  not among the sources; it is a parameter here. \<open>a\<close> is declared without an initial
  value; \<open>a0\<close> stands for whatever it holds before the extraction. The strings start
  empty. The one variable \<open>url\<close> receives both extractions from the request line, and
  the one variable \<open>x\<close> the first, third and fifth from the target. The \<open>unsigned int\<close>
  is handed to the \<open>int\<close> parameter of \<open>process\<close> with the same 32 bits.
\<close>

definition request_of_line ::
  "(string \<Rightarrow> string) \<Rightarrow> cint \<Rightarrow> string \<Rightarrow> string \<times> string \<times> cint" where
  "request_of_line url_decode a0 line =
     (let (s1, url1) = extract_string (istringstream line) [];
          (s2, url2) = extract_string s1 url1;
          url3 = url_decode url2;
          url4 = replace (CHR ''&'') (CHR '' '') url3;
          url5 = replace (CHR ''='') (CHR '' '') url4;
          (t1, x1) = extract_string (istringstream url5) [];
          (t2, trans') = extract_string t1 [];
          (t3, x2) = extract_string t2 x1;
          (t4, stock) = extract_string t3 [];
          (t5, x3) = extract_string t4 x2;
          (t6, a) = extract_uint t5 a0
      in (trans', stock, a))"

subsection \<open>Lines of the input and the response\<close>

text \<open>
  The input stream is the string of the characters that the client sends before it
  closes. \<open>std::getline\<close> yields the characters up to the next line feed, takes the line
  feed away, and succeeds when it has taken anything at all.
\<close>

definition getline :: "string \<Rightarrow> bool \<times> string \<times> string" where
  "getline inp =
     (let line = takeWhile (\<lambda>c. c \<noteq> CHR 0x0A) inp
      in (inp \<noteq> [], line, drop (Suc (length line)) inp))"

text \<open>The loop of lines 175 and 176: header lines are read up to the first blank one.\<close>

function skip_headers :: "string \<Rightarrow> string" where
  "skip_headers inp =
     (case getline inp of
        (ok, hdr, rest) \<Rightarrow>
          if ok \<and> hdr \<noteq> [] \<and> hdr \<noteq> [CHR 0x0D] then skip_headers rest else rest)"
  by pat_completeness auto
termination
  by (relation "measure length") (auto simp: getline_def Let_def)

declare skip_headers.simps [simp del]

definition CRLF :: string where
  "CRLF = [CHR 0x0D, CHR 0x0A]"

definition HTTPRespHeader :: string where
  "HTTPRespHeader =
     ''HTTP/1.1 200 OK'' @ CRLF @
     ''Server: SimpleServer'' @ CRLF @
     ''Content-Length: %1%'' @ CRLF @
     ''Connection: Close'' @ CRLF @
     ''Content-Type: text/html'' @ CRLF @ CRLF"

text \<open>
  \<open>boost::str(boost::format(f) % arg)\<close> for a format string whose only directive is
  \<open>%1%\<close>: the text of the argument takes the place of the directive.
\<close>

fun format :: "string \<Rightarrow> string \<Rightarrow> string" where
  "format (a # b # c # cs) arg =
     (if [a, b, c] = ''%1%'' then arg @ format cs arg else a # format (b # c # cs) arg)"
| "format cs arg = cs"

text \<open>
  \<open>clientThread\<close> yields what is left of the input, what is written to the output, and
  the table.
\<close>

definition clientThread ::
  "(string \<Rightarrow> string) \<Rightarrow> cint \<Rightarrow> string \<Rightarrow> stockMap \<Rightarrow> (string \<times> string) \<times> stockMap" where
  "clientThread url_decode a0 is m =
     (let (ok, line, is1) = getline is;
          (trans', stock, a) = request_of_line url_decode a0 line;
          is2 = skip_headers is1;
          (data, m1) = process trans' stock a m;
          httpForm = format HTTPRespHeader (dec (length data))
      in ((is2, httpForm @ data), m1))"

subsection \<open>White-space-delimited tokens\<close>

text \<open>
  The tokens of a string: its maximal runs of characters that are not white space, in
  order. \<open>normalized\<close> is the target after decoding and after \<open>&\<close> and \<open>=\<close> have
  become spaces. \<open>pending\<close> is the list of tokens that a stream can still deliver.
\<close>

function tokens :: "string \<Rightarrow> string list" where
  "tokens s =
     (let r = dropWhile isspace s
      in if r = [] then []
         else takeWhile (\<lambda>c. \<not> isspace c) r # tokens (dropWhile (\<lambda>c. \<not> isspace c) r))"
  by pat_completeness auto
termination
proof (relation "measure length")
  fix s r :: string
  assume r: "r = dropWhile isspace s" and ne: "r \<noteq> []"
  from ne obtain c cs where rc: "r = c # cs" by (cases r) auto
  from r ne have "dropWhile isspace s \<noteq> []" by (simp del: dropWhile_eq_Nil_conv)
  then have "\<not> isspace (hd (dropWhile isspace s))" by (rule hd_dropWhile)
  moreover from r rc have "dropWhile isspace s = c # cs" by simp
  ultimately have "\<not> isspace c" by simp
  with rc have "dropWhile (\<lambda>c. \<not> isspace c) r = dropWhile (\<lambda>c. \<not> isspace c) cs" by simp
  then have "length (dropWhile (\<lambda>c. \<not> isspace c) r) \<le> length cs"
    by (simp add: length_dropWhile_le)
  also have "length cs < length r" using rc by simp
  also have "length r \<le> length s" using r by (simp add: length_dropWhile_le)
  finally show "(dropWhile (\<lambda>c. \<not> isspace c) r, s) \<in> measure length" by simp
qed simp

declare tokens.simps [simp del]

definition normalized :: "(string \<Rightarrow> string) \<Rightarrow> string \<Rightarrow> string" where
  "normalized url_decode target =
     replace (CHR ''='') (CHR '' '') (replace (CHR ''&'') (CHR '' '') (url_decode target))"

definition pending :: "istringstream \<Rightarrow> string list" where
  "pending st = (if good st then tokens (buf st) else [])"

section \<open>Properties of the ledger operations\<close>

subsection \<open>Auxiliary facts\<close>

lemma found_iff: "found m k \<longleftrightarrow> m k \<noteq> None"
  by (simp add: found_def split: option.split)

lemma subscript_Some: "m k = Some r \<Longrightarrow> subscript m k f = m(k \<mapsto> f r)"
  by (simp add: subscript_def)

lemma subscript_None: "m k = None \<Longrightarrow> subscript m k f = m(k \<mapsto> f Stock0)"
  by (simp add: subscript_def)

lemma subscript_id: "m k = Some r \<Longrightarrow> subscript m k (\<lambda>r. r) = m"
  by (simp add: subscript_def map_upd_triv)

lemma dom_subscript: "dom (subscript m k f) = insert k (dom m)"
  by (cases "m k") (auto simp: subscript_def)

lemma statusS_same: "snd (statusS k m) = m"
  by (cases "m k") (simp_all add: statusS_def found_iff subscript_id)

lemma digit_value_digits: "d < 10 \<Longrightarrow> digit_value (digits ! d) = d"
proof -
  assume "d < 10"
  then have "d \<in> {0, 1, 2, 3, 4, 5, 6, 7, 8, 9}" by auto
  then show ?thesis by (auto simp: digit_value_def digits_def)
qed

lemma digits_not_minus: "d < 10 \<Longrightarrow> digits ! d \<noteq> CHR ''-''"
proof -
  assume "d < 10"
  then have "d \<in> {0, 1, 2, 3, 4, 5, 6, 7, 8, 9}" by auto
  then show ?thesis by (auto simp: digits_def)
qed

lemma decimal_value_snoc: "decimal_value (cs @ [c]) = 10 * decimal_value cs + digit_value c"
  by (simp add: decimal_value_def)

lemma decimal_value_dec: "decimal_value (dec n) = n"
proof (induction n rule: dec.induct)
  case (1 n)
  show ?case
  proof (cases "n < 10")
    case True
    then show ?thesis by (simp add: dec.simps[of n] decimal_value_def digit_value_digits)
  next
    case False
    with 1 have "decimal_value (dec (n div 10)) = n div 10" by simp
    with False show ?thesis
      by (simp add: dec.simps[of n] decimal_value_snoc digit_value_digits)
  qed
qed

lemma dec_head: "\<exists>c cs. dec n = c # cs \<and> c \<noteq> CHR ''-''"
proof (induction n rule: dec.induct)
  case (1 n)
  show ?case
  proof (cases "n < 10")
    case True
    then show ?thesis by (simp add: dec.simps[of n] digits_not_minus)
  next
    case False
    with 1 obtain c cs where "dec (n div 10) = c # cs" "c \<noteq> CHR ''-''" by auto
    with False show ?thesis by (simp add: dec.simps[of n])
  qed
qed

lemma decimal_int_to_string: "decimal_int (to_string v) = sint v"
proof (cases "sint v < 0")
  case True
  then show ?thesis by (simp add: to_string_def decimal_int_def decimal_value_dec)
next
  case False
  obtain c cs where d: "dec (nat (sint v)) = c # cs" "c \<noteq> CHR ''-''"
    using dec_head by blast
  have "decimal_value (c # cs) = nat (sint v)"
    using decimal_value_dec [of "nat (sint v)"] d by simp
  with False d show ?thesis by (simp add: to_string_def decimal_int_def)
qed

lemma sint_sub_exact:
  "- (2 ^ 31) \<le> sint (b :: cint) - sint (n :: cint) \<Longrightarrow> sint b - sint n < 2 ^ 31 \<Longrightarrow>
   sint (b - n) = sint b - sint n"
  by (simp add: sint_word_ariths signed_take_bit_int_eq_self)

lemma sint_add_exact:
  "- (2 ^ 31) \<le> sint (b :: cint) + sint (n :: cint) \<Longrightarrow> sint b + sint n < 2 ^ 31 \<Longrightarrow>
   sint (b + n) = sint b + sint n"
  by (simp add: sint_word_ariths signed_take_bit_int_eq_self)

subsection \<open>Buying and selling\<close>

text \<open>
  C1: for a symbol \<open>s\<close> that the table holds, \<open>buyS\<close> takes the amount \<open>n\<close> off the balance
  of the entry and \<open>sellS\<close> adds it, both answer \<open>Stock s's balance updated\<close>, and nothing
  else in the table changes. The new balance is the old one minus (plus) \<open>n\<close> in the
  arithmetic of \<open>int\<close>, with no test and no clamping: whenever the exact difference (sum)
  is a value of \<open>int\<close>, the signed value stored is that difference (sum), negative or not.
\<close>

theorem buy_sell_adjust:
  assumes "m s = Some r"
  shows "buyS s n m =
           (''Stock '' @ s @ [CHR 0x27] @ ''s balance updated'',
            m(s \<mapsto> r\<lparr>balance := balance r - n\<rparr>))
       \<and> sellS s n m =
           (''Stock '' @ s @ [CHR 0x27] @ ''s balance updated'',
            m(s \<mapsto> r\<lparr>balance := balance r + n\<rparr>))
       \<and> (- (2 ^ 31) \<le> sint (balance r) - sint n \<and> sint (balance r) - sint n < 2 ^ 31 \<longrightarrow>
            sint (balance r - n) = sint (balance r) - sint n)
       \<and> (- (2 ^ 31) \<le> sint (balance r) + sint n \<and> sint (balance r) + sint n < 2 ^ 31 \<longrightarrow>
            sint (balance r + n) = sint (balance r) + sint n)"
  using assms
  by (simp add: buyS_def sellS_def found_iff subscript_id subscript_Some sint_sub_exact
      sint_add_exact)

text \<open>
  A balance of 5 after buying 10 is -5, and \<open>statusS\<close> prints it so; after selling 10
  it is 15.
\<close>

theorem buy_sell_adjust_witness:
  "[''ABC'' \<mapsto> \<lparr>name = ''ABC'', balance = 5\<rparr>] ''ABC'' = Some \<lparr>name = ''ABC'', balance = 5\<rparr>
   \<and> - (2 ^ 31) \<le> sint (5 :: cint) - sint (10 :: cint)
   \<and> sint (5 :: cint) - sint (10 :: cint) < 2 ^ 31
   \<and> - (2 ^ 31) \<le> sint (5 :: cint) + sint (10 :: cint)
   \<and> sint (5 :: cint) + sint (10 :: cint) < 2 ^ 31
   \<and> buyS ''ABC'' 10 [''ABC'' \<mapsto> \<lparr>name = ''ABC'', balance = 5\<rparr>] =
       (''Stock ABC'' @ [CHR 0x27] @ ''s balance updated'',
        [''ABC'' \<mapsto> \<lparr>name = ''ABC'', balance = - 5\<rparr>])
   \<and> sint (- 5 :: cint) = - 5
   \<and> sellS ''ABC'' 10 [''ABC'' \<mapsto> \<lparr>name = ''ABC'', balance = 5\<rparr>] =
       (''Stock ABC'' @ [CHR 0x27] @ ''s balance updated'',
        [''ABC'' \<mapsto> \<lparr>name = ''ABC'', balance = 15\<rparr>])
   \<and> fst (statusS ''ABC'' (snd (buyS ''ABC'' 10 [''ABC'' \<mapsto> \<lparr>name = ''ABC'', balance = 5\<rparr>]))) =
       ''Balance for stock ABC = -5''"
  using buy_sell_adjust [of "[''ABC'' \<mapsto> \<lparr>name = ''ABC'', balance = 5\<rparr>]" "''ABC''"
      "\<lparr>name = ''ABC'', balance = 5\<rparr>" 10]
  by (simp add: statusS_def found_iff subscript_Some to_string_def dec.simps digits_def)

subsection \<open>Creating and reading\<close>

text \<open>
  C2: for a symbol \<open>s\<close> that the table does not hold, \<open>createS\<close> adds the entry with name
  \<open>s\<close> and balance \<open>n\<close> and answers \<open>Stock s created with balance = n\<close>; \<open>statusS\<close> on the
  table so obtained answers \<open>Balance for stock s = n\<close> and leaves the table as it is. The
  text printed for \<open>n\<close> is its signed decimal numeral.
\<close>

theorem create_then_status:
  assumes "m s = None"
  shows "createS s n m =
           (''Stock '' @ s @ '' created with balance = '' @ to_string n,
            m(s \<mapsto> \<lparr>name = s, balance = n\<rparr>))
       \<and> statusS s (snd (createS s n m)) =
           (''Balance for stock '' @ s @ '' = '' @ to_string n,
            m(s \<mapsto> \<lparr>name = s, balance = n\<rparr>))
       \<and> decimal_int (to_string n) = sint n"
  using assms
  by (simp add: createS_def statusS_def found_iff subscript_def Stock0_def Let_def
      decimal_int_to_string)

theorem create_then_status_witness:
  "Map.empty ''ABC'' = (None :: Stock option)
   \<and> createS ''ABC'' 100 Map.empty =
       (''Stock ABC created with balance = 100'',
        [''ABC'' \<mapsto> \<lparr>name = ''ABC'', balance = 100\<rparr>])
   \<and> statusS ''ABC'' (snd (createS ''ABC'' 100 Map.empty)) =
       (''Balance for stock ABC = 100'', [''ABC'' \<mapsto> \<lparr>name = ''ABC'', balance = 100\<rparr>])"
  using create_then_status [of Map.empty "''ABC''" 100]
  by (simp add: to_string_def dec.simps digits_def cong: conj_cong)

subsection \<open>Answers that change nothing\<close>

text \<open>
  C3: \<open>createS\<close> on a symbol that the table holds answers \<open>Stock s already exists\<close> and
  returns the table it was given, so the entry of \<open>s\<close> is the one it was; \<open>buyS\<close>,
  \<open>sellS\<close> and \<open>statusS\<close> on a symbol that the table does not hold answer
  \<open>Stock not found\<close> and return the table they were given.
\<close>

theorem error_results_no_op:
  "(m s = Some r \<longrightarrow>
        createS s n m = (''Stock '' @ s @ '' already exists'', m) \<and>
        snd (createS s n m) s = Some r)
   \<and> (m s = None \<longrightarrow>
        buyS s n m = (''Stock not found'', m) \<and>
        sellS s n m = (''Stock not found'', m) \<and>
        statusS s m = (''Stock not found'', m))"
  by (simp add: createS_def buyS_def sellS_def statusS_def found_iff)

theorem error_results_no_op_witness:
  "[''ABC'' \<mapsto> \<lparr>name = ''ABC'', balance = 100\<rparr>] ''ABC'' = Some \<lparr>name = ''ABC'', balance = 100\<rparr>
   \<and> createS ''ABC'' 7 [''ABC'' \<mapsto> \<lparr>name = ''ABC'', balance = 100\<rparr>] =
       (''Stock ABC already exists'', [''ABC'' \<mapsto> \<lparr>name = ''ABC'', balance = 100\<rparr>])
   \<and> [''ABC'' \<mapsto> \<lparr>name = ''ABC'', balance = 100\<rparr>] ''XYZ'' = None
   \<and> buyS ''XYZ'' 7 [''ABC'' \<mapsto> \<lparr>name = ''ABC'', balance = 100\<rparr>] =
       (''Stock not found'', [''ABC'' \<mapsto> \<lparr>name = ''ABC'', balance = 100\<rparr>])
   \<and> sellS ''XYZ'' 7 [''ABC'' \<mapsto> \<lparr>name = ''ABC'', balance = 100\<rparr>] =
       (''Stock not found'', [''ABC'' \<mapsto> \<lparr>name = ''ABC'', balance = 100\<rparr>])
   \<and> statusS ''XYZ'' [''ABC'' \<mapsto> \<lparr>name = ''ABC'', balance = 100\<rparr>] =
       (''Stock not found'', [''ABC'' \<mapsto> \<lparr>name = ''ABC'', balance = 100\<rparr>])"
  using
    error_results_no_op [of "[''ABC'' \<mapsto> \<lparr>name = ''ABC'', balance = 100\<rparr>]" "''ABC''"
      "\<lparr>name = ''ABC'', balance = 100\<rparr>" 7]
    error_results_no_op [of "[''ABC'' \<mapsto> \<lparr>name = ''ABC'', balance = 100\<rparr>]" "''XYZ''" _ 7]
  by simp

subsection \<open>Reset\<close>

text \<open>
  C4: \<open>resetS\<close> has one path only: it answers \<open>Stocks reset\<close> and leaves the empty table,
  whatever the table was. On the table it leaves, \<open>statusS\<close>, \<open>buyS\<close> and \<open>sellS\<close> answer
  \<open>Stock not found\<close> for every symbol, so also for each one created before.
\<close>

theorem reset_clears:
  "resetS m = (''Stocks reset'', Map.empty)
   \<and> process ''reset'' s n m = (''Stocks reset'', Map.empty)
   \<and> statusS s (snd (resetS m)) = (''Stock not found'', Map.empty)
   \<and> buyS s n (snd (resetS m)) = (''Stock not found'', Map.empty)
   \<and> sellS s n (snd (resetS m)) = (''Stock not found'', Map.empty)"
  by (simp add: resetS_def statusS_def buyS_def sellS_def found_iff process_def)

subsection \<open>Dispatch\<close>

text \<open>
  C6: a verb that is none of \<open>create\<close>, \<open>buy\<close>, \<open>sell\<close>, \<open>status\<close>, \<open>reset\<close> (the
  comparison is exact, so \<open>Create\<close> and the empty string are such verbs) makes \<open>process\<close>
  answer \<open>Invalid request\<close> and return the table it was given.
\<close>

theorem invalid_verb:
  assumes "t \<notin> {''create'', ''buy'', ''sell'', ''status'', ''reset''}"
  shows "process t s a m = (''Invalid request'', m)"
  using assms by (simp add: process_def)

theorem invalid_verb_witness:
  "''Create'' \<notin> {''create'', ''buy'', ''sell'', ''status'', ''reset''}
   \<and> [] \<notin> {''create'', ''buy'', ''sell'', ''status'', ''reset''}
   \<and> process ''Create'' ''ABC'' 5 Map.empty = (''Invalid request'', Map.empty)
   \<and> process [] ''ABC'' 5 Map.empty = (''Invalid request'', Map.empty)"
  using invalid_verb [of "''Create''" "''ABC''" 5 Map.empty]
    invalid_verb [of "[]" "''ABC''" 5 Map.empty]
  by simp

text \<open>
  C10: \<open>process\<close> with the verb \<open>status\<close> gives the same answer and the same table for
  any two amounts, and with the verb \<open>reset\<close> for any two symbols and any two amounts.
\<close>

theorem ignored_arguments:
  "process ''status'' s a m = process ''status'' s a' m
   \<and> process ''reset'' s a m = process ''reset'' s' a' m"
  by (simp add: process_def)

subsection \<open>The invariant of the table\<close>

lemma names_match_upd:
  "names_match m \<Longrightarrow> name r = k \<Longrightarrow> names_match (m(k \<mapsto> r))"
  by (simp add: names_match_def)

lemma names_match_createS: "names_match m \<Longrightarrow> names_match (snd (createS k a m))"
proof (cases "m k")
  case None
  assume "names_match m"
  then show ?thesis using None
    by (simp add: createS_def found_iff subscript_def Let_def names_match_upd)
next
  case (Some r)
  assume "names_match m"
  then show ?thesis using Some by (simp add: createS_def found_iff)
qed

lemma names_match_buyS: "names_match m \<Longrightarrow> names_match (snd (buyS k a m))"
proof (cases "m k")
  case None
  assume "names_match m"
  then show ?thesis using None by (simp add: buyS_def found_iff)
next
  case (Some r)
  assume nm: "names_match m"
  then have "name r = k" using Some by (simp add: names_match_def)
  then show ?thesis using Some nm
    by (simp add: buyS_def found_iff subscript_id subscript_Some names_match_upd)
qed

lemma names_match_sellS: "names_match m \<Longrightarrow> names_match (snd (sellS k a m))"
proof (cases "m k")
  case None
  assume "names_match m"
  then show ?thesis using None by (simp add: sellS_def found_iff)
next
  case (Some r)
  assume nm: "names_match m"
  then have "name r = k" using Some by (simp add: names_match_def)
  then show ?thesis using Some nm
    by (simp add: sellS_def found_iff subscript_id subscript_Some names_match_upd)
qed

lemma names_match_process: "names_match m \<Longrightarrow> names_match (snd (process t k a m))"
  by (simp add: process_def names_match_createS names_match_buyS names_match_sellS
      statusS_same resetS_def names_match_def[of Map.empty])

lemma names_match_run: "names_match m \<Longrightarrow> names_match (run reqs m)"
proof (induction reqs arbitrary: m)
  case Nil
  then show ?case by simp
next
  case (Cons q reqs)
  obtain t k a where q: "q = (t, k, a)" by (cases q) auto
  from Cons.prems have "names_match (snd (process t k a m))"
    by (rule names_match_process)
  then show ?case using Cons.IH q by simp
qed

lemma dom_process_create: "dom (snd (process ''create'' k a m)) = insert k (dom m)"
proof (cases "m k")
  case None
  then show ?thesis by (simp add: process_def createS_def found_iff dom_subscript Let_def)
next
  case (Some r)
  then have "insert k (dom m) = dom m" by auto
  then show ?thesis using Some by (simp add: process_def createS_def found_iff)
qed

lemma dom_process_reset: "dom (snd (process ''reset'' k a m)) = {}"
  by (simp add: process_def resetS_def)

lemma dom_buyS: "dom (snd (buyS k a m)) = dom m"
proof (cases "m k")
  case None
  then show ?thesis by (simp add: buyS_def found_iff)
next
  case (Some r)
  then have "insert k (dom m) = dom m" by auto
  then show ?thesis using Some by (simp add: buyS_def found_iff dom_subscript)
qed

lemma dom_sellS: "dom (snd (sellS k a m)) = dom m"
proof (cases "m k")
  case None
  then show ?thesis by (simp add: sellS_def found_iff)
next
  case (Some r)
  then have "insert k (dom m) = dom m" by auto
  then show ?thesis using Some by (simp add: sellS_def found_iff dom_subscript)
qed

lemma dom_process_other:
  "t \<noteq> ''create'' \<Longrightarrow> t \<noteq> ''reset'' \<Longrightarrow> dom (snd (process t k a m)) = dom m"
  by (simp add: process_def dom_buyS dom_sellS statusS_same)

text \<open>
  C9: in the table reached from the empty one by any list of requests, the entry stored
  under a key \<open>s\<close> has the name \<open>s\<close>. From any table, a request whose verb is not
  \<open>create\<close> adds no key and a request whose verb is not \<open>reset\<close> removes none, so \<open>buy\<close>,
  \<open>sell\<close> and \<open>status\<close> leave the set of keys as it is; \<open>create\<close> adds at most its own
  symbol and \<open>reset\<close> leaves no key.
\<close>

theorem ledger_invariant:
  "(run reqs Map.empty s = Some r \<longrightarrow> name r = s)
   \<and> (t \<noteq> ''create'' \<longrightarrow> dom (snd (process t k a m)) \<subseteq> dom m)
   \<and> (t \<noteq> ''reset'' \<longrightarrow> dom m \<subseteq> dom (snd (process t k a m)))
   \<and> (t \<in> {''buy'', ''sell'', ''status''} \<longrightarrow> dom (snd (process t k a m)) = dom m)
   \<and> dom (snd (process ''create'' k a m)) = insert k (dom m)
   \<and> dom (snd (process ''reset'' k a m)) = {}"
proof -
  have "names_match (run reqs Map.empty)"
    by (rule names_match_run) (simp add: names_match_def)
  then have 1: "run reqs Map.empty s = Some r \<longrightarrow> name r = s"
    by (simp add: names_match_def)
  have 2: "t \<noteq> ''create'' \<longrightarrow> dom (snd (process t k a m)) \<subseteq> dom m"
    by (cases "t = ''reset''") (simp_all add: dom_process_reset dom_process_other)
  have 3: "t \<noteq> ''reset'' \<longrightarrow> dom m \<subseteq> dom (snd (process t k a m))"
    by (cases "t = ''create''") (auto simp: dom_process_create dom_process_other)
  have 4: "t \<in> {''buy'', ''sell'', ''status''} \<longrightarrow> dom (snd (process t k a m)) = dom m"
    using dom_process_other [of t k a m] by auto
  show ?thesis
    using 1 2 3 4 dom_process_create [of k a m] dom_process_reset [of k a m] by simp
qed

theorem ledger_invariant_witness:
  "run [(''create'', ''ABC'', 100), (''buy'', ''ABC'', 30)] Map.empty ''ABC''
      = Some \<lparr>name = ''ABC'', balance = 70\<rparr>
   \<and> ''buy'' \<noteq> ''create'' \<and> ''buy'' \<noteq> ''reset'' \<and> ''buy'' \<in> {''buy'', ''sell'', ''status''}
   \<and> name \<lparr>name = ''ABC'', balance = 70 :: cint\<rparr> = ''ABC''
   \<and> dom (snd (process ''buy'' ''ABC'' 30 [''ABC'' \<mapsto> \<lparr>name = ''ABC'', balance = 100\<rparr>])) = {''ABC''}"
  using ledger_invariant [of "[(''create'', ''ABC'', 100), (''buy'', ''ABC'', 30)]" "''ABC''"
      "\<lparr>name = ''ABC'', balance = 70\<rparr>" "''buy''" "''ABC''" 30
      "[''ABC'' \<mapsto> \<lparr>name = ''ABC'', balance = 100\<rparr>]"]
  by (simp add: process_def createS_def buyS_def found_iff subscript_def Stock0_def)

section \<open>Properties of the connection handler\<close>

subsection \<open>The response\<close>

lemma format_HTTPRespHeader:
  "format HTTPRespHeader arg =
     ''HTTP/1.1 200 OK'' @ CRLF @
     ''Server: SimpleServer'' @ CRLF @
     ''Content-Length: '' @ arg @ CRLF @
     ''Connection: Close'' @ CRLF @
     ''Content-Type: text/html'' @ CRLF @ CRLF"
  by (simp add: HTTPRespHeader_def CRLF_def)

text \<open>
  C7: whatever the input, the decoder, the value left in \<open>a\<close> and the table are, the
  output of \<open>clientThread\<close> is the status line \<open>HTTP/1.1 200 OK\<close>, the \<open>Server\<close> header,
  a \<open>Content-Length\<close> header with the decimal numeral of the length of the answer of
  \<open>process\<close>, the headers \<open>Connection: Close\<close> and \<open>Content-Type: text/html\<close>, a blank
  line, and that answer, with nothing after it. The numeral reads back as the length.
\<close>

theorem http_response:
  "(let (trans', stock, a) = request_of_line url_decode a0 (fst (snd (getline inp)));
        data = fst (process trans' stock a m)
    in snd (fst (clientThread url_decode a0 inp m)) =
         ''HTTP/1.1 200 OK'' @ CRLF @
         ''Server: SimpleServer'' @ CRLF @
         ''Content-Length: '' @ dec (length data) @ CRLF @
         ''Connection: Close'' @ CRLF @
         ''Content-Type: text/html'' @ CRLF @ CRLF @ data
       \<and> decimal_value (dec (length data)) = length data)"
  by (simp add: clientThread_def split_def Let_def format_HTTPRespHeader decimal_value_dec)

subsection \<open>Extraction delivers the tokens in order\<close>

lemma tokens_Nil: "tokens [] = []"
  by (simp add: tokens.simps)

lemma takeWhile_nonspace_ne:
  assumes "dropWhile isspace s \<noteq> []"
  shows "takeWhile (\<lambda>c. \<not> isspace c) (dropWhile isspace s) \<noteq> []"
proof -
  from assms obtain c cs where rc: "dropWhile isspace s = c # cs"
    by (cases "dropWhile isspace s") (simp_all del: dropWhile_eq_Nil_conv)
  then have "\<not> isspace c" using hd_dropWhile [of isspace s] by auto
  with rc show ?thesis by simp
qed

lemma pending_istringstream: "pending (istringstream s) = tokens s"
  by (simp add: pending_def istringstream_def good_def)

lemma extract_string_value:
  "snd (extract_string st str) = (case pending st of [] \<Rightarrow> str | t # _ \<Rightarrow> t)"
proof (cases "good st")
  case False
  then show ?thesis by (simp add: extract_string_def sentry_def pending_def)
next
  case True
  show ?thesis
  proof (cases "dropWhile isspace (buf st) = []")
    case True
    with \<open>good st\<close> show ?thesis
      by (simp add: extract_string_def sentry_def pending_def tokens.simps [of "buf st"]
          del: dropWhile_eq_Nil_conv)
  next
    case False
    with \<open>good st\<close> show ?thesis
      by (simp add: extract_string_def sentry_def pending_def tokens.simps [of "buf st"] Let_def
          del: dropWhile_eq_Nil_conv)
  qed
qed

lemma extract_string_pending:
  "pending (fst (extract_string st str)) = tl (pending st)"
proof (cases "good st")
  case False
  then show ?thesis by (auto simp: extract_string_def sentry_def pending_def good_def)
next
  case True
  show ?thesis
  proof (cases "dropWhile isspace (buf st) = []")
    case True
    with \<open>good st\<close> show ?thesis
      by (simp add: extract_string_def sentry_def pending_def good_def tokens.simps [of "buf st"]
          del: dropWhile_eq_Nil_conv)
  next
    case False
    with \<open>good st\<close> takeWhile_nonspace_ne [of "buf st"] show ?thesis
      by (simp add: extract_string_def sentry_def pending_def good_def
          tokens.simps [of "buf st"] Let_def tokens_Nil del: dropWhile_eq_Nil_conv)
  qed
qed

lemma takeWhile_takeWhile_imp:
  "(\<And>c. P c \<Longrightarrow> Q c) \<Longrightarrow> takeWhile P (takeWhile Q s) = takeWhile P s"
  by (induction s) auto

lemma isdigit_not_isspace: "isdigit c \<Longrightarrow> \<not> isspace c"
  by (auto simp: isdigit_def isspace_def digits_def)

lemma takeWhile_isdigit_token:
  "takeWhile isdigit (takeWhile (\<lambda>c. \<not> isspace c) s) = takeWhile isdigit s"
  by (rule takeWhile_takeWhile_imp) (rule isdigit_not_isspace)

text \<open>The number read from the stream is the number read from the token alone.\<close>

lemma num_get_token: "fst (num_get (takeWhile (\<lambda>c. \<not> isspace c) s)) = fst (num_get s)"
proof (cases s)
  case Nil
  then show ?thesis by simp
next
  case (Cons c cs)
  show ?thesis
  proof (cases "isspace c")
    case True
    then have "\<not> isdigit c" using isdigit_not_isspace by blast
    moreover from True have "c \<noteq> CHR ''-''" "c \<noteq> CHR ''+''" by (auto simp: isspace_def)
    ultimately show ?thesis using Cons True by (simp add: num_get_def)
  next
    case False
    then show ?thesis
      using Cons takeWhile_isdigit_token [of cs] takeWhile_isdigit_token [of "c # cs"]
      by (simp add: num_get_def Let_def split: if_splits)
  qed
qed

lemma extract_uint_value:
  "snd (extract_uint st v0) = (case pending st of [] \<Rightarrow> v0 | t # _ \<Rightarrow> fst (fst (num_get t)))"
proof (cases "good st")
  case False
  then show ?thesis by (simp add: extract_uint_def sentry_def pending_def)
next
  case True
  show ?thesis
  proof (cases "dropWhile isspace (buf st) = []")
    case True
    with \<open>good st\<close> show ?thesis
      by (simp add: extract_uint_def sentry_def pending_def tokens.simps [of "buf st"]
          del: dropWhile_eq_Nil_conv)
  next
    case False
    with \<open>good st\<close> show ?thesis
      by (simp add: extract_uint_def sentry_def pending_def tokens.simps [of "buf st"] Let_def
          num_get_token split_def del: dropWhile_eq_Nil_conv)
  qed
qed

lemma tl_drop_Suc: "tl (drop n xs) = drop (Suc n) xs"
  by (simp add: tl_drop drop_Suc)

lemma tl_drop_1: "tl xs = drop (Suc 0) xs"
  by (simp add: drop_Suc)

lemma case_drop:
  "(case drop i ts of [] \<Rightarrow> d | t # _ \<Rightarrow> f t) = (if i < length ts then f (ts ! i) else d)"
proof (cases "i < length ts")
  case True
  then have "drop i ts = ts ! i # drop (Suc i) ts" by (simp add: Cons_nth_drop_Suc)
  with True show ?thesis by simp
next
  case False
  then show ?thesis by simp
qed

subsection \<open>Which tokens reach the dispatcher\<close>

text \<open>
  C8, as stated, fails in two ways. A request line with a single token has no second
  token, and the handler takes the first one as the target, because both extractions go
  into the variable \<open>url\<close> and the second one, failing, leaves it as it is: the line
  \<open>x=reset\<close> has one token, its verb \<open>reset\<close> reaches \<open>process\<close>, and a table that held
  a stock is empty afterwards. And a target with fewer than six tokens, such as that of
  the request \<open>GET /t?trans=reset HTTP/1.1\<close>, whose normalized target has two, yields
  an amount that is no token of it: the extraction fails and \<open>process\<close> receives whatever
  \<open>a\<close> held, here 7 in one run and 0 in another.
\<close>

theorem request_tokens_counterexample:
  "tokens ''x=reset'' = [''x=reset'']
   \<and> request_of_line (\<lambda>s. s) 0 ''x=reset'' = (''reset'', [], 0)
   \<and> clientThread (\<lambda>s. s) 0 ''x=reset'' [''ABC'' \<mapsto> \<lparr>name = ''ABC'', balance = 100\<rparr>] =
       (([], ''HTTP/1.1 200 OK'' @ CRLF @
             ''Server: SimpleServer'' @ CRLF @
             ''Content-Length: 12'' @ CRLF @
             ''Connection: Close'' @ CRLF @
             ''Content-Type: text/html'' @ CRLF @ CRLF @ ''Stocks reset''),
        Map.empty)
   \<and> tokens (normalized (\<lambda>s. s) ''/t?trans=reset'') = [''/t?trans'', ''reset'']
   \<and> request_of_line (\<lambda>s. s) 7 ''GET /t?trans=reset HTTP/1.1'' = (''reset'', [], 7)
   \<and> request_of_line (\<lambda>s. s) 0 ''GET /t?trans=reset HTTP/1.1'' = (''reset'', [], 0)"
proof -
  have 1: "tokens ''x=reset'' = [''x=reset'']"
    by (simp add: tokens.simps isspace_def)
  have 2: "request_of_line (\<lambda>s. s) 0 ''x=reset'' = (''reset'', [], 0)"
    by (simp add: request_of_line_def extract_string_def extract_uint_def sentry_def good_def
        istringstream_def replace_def isspace_def)
  have 3: "clientThread (\<lambda>s. s) 0 ''x=reset'' [''ABC'' \<mapsto> \<lparr>name = ''ABC'', balance = 100\<rparr>] =
       (([], ''HTTP/1.1 200 OK'' @ CRLF @
             ''Server: SimpleServer'' @ CRLF @
             ''Content-Length: 12'' @ CRLF @
             ''Connection: Close'' @ CRLF @
             ''Content-Type: text/html'' @ CRLF @ CRLF @ ''Stocks reset''),
        Map.empty)"
    by (simp add: clientThread_def 2 getline_def skip_headers.simps process_def resetS_def
        format_HTTPRespHeader dec.simps digits_def)
  have 4: "tokens (normalized (\<lambda>s. s) ''/t?trans=reset'') = [''/t?trans'', ''reset'']"
    by (simp add: normalized_def replace_def tokens.simps isspace_def)
  have 5: "request_of_line (\<lambda>s. s) 7 ''GET /t?trans=reset HTTP/1.1'' = (''reset'', [], 7)"
    by (simp add: request_of_line_def extract_string_def extract_uint_def sentry_def good_def
        istringstream_def replace_def isspace_def)
  have 6: "request_of_line (\<lambda>s. s) 0 ''GET /t?trans=reset HTTP/1.1'' = (''reset'', [], 0)"
    by (simp add: request_of_line_def extract_string_def extract_uint_def sentry_def good_def
        istringstream_def replace_def isspace_def)
  from 1 2 3 4 5 6 show ?thesis by simp
qed

text \<open>
  C8, amended: the target is the second token of the request line when the line has at
  least two tokens, its only token when it has one, and the empty string when it has
  none. With the target decoded and every \<open>&\<close> and \<open>=\<close> turned into a space, the
  verb and the symbol handed to \<open>process\<close> are the second and the fourth token of the
  normalized target, the empty string where the target has no such token, and the amount
  is the unsigned number that the sixth token reads as, or the value that \<open>a\<close> held
  uninitialised where there is no sixth token. Only positions count: the first, third
  and fifth token, where the field names stand, are read into \<open>x\<close> and never looked at.
\<close>

theorem positional_fields:
  "request_of_line url_decode a0 line =
     (let ts = tokens line;
          target = (if 2 \<le> length ts then ts ! 1 else if ts = [] then [] else ts ! 0);
          ws = tokens (normalized url_decode target)
      in (if 2 \<le> length ws then ws ! 1 else [],
          if 4 \<le> length ws then ws ! 3 else [],
          if 6 \<le> length ws then fst (fst (num_get (ws ! 5))) else a0))"
proof -
  define ts where "ts = tokens line"
  define url2 where
    "url2 = snd (extract_string (fst (extract_string (istringstream line) []))
                   (snd (extract_string (istringstream line) [])))"
  define ws where "ws = tokens (normalized url_decode url2)"
  have url2: "url2 = (if 2 \<le> length ts then ts ! 1 else if ts = [] then [] else ts ! 0)"
    unfolding url2_def ts_def
    by (cases "tokens line"; cases "tl (tokens line)")
      (auto simp: extract_string_value extract_string_pending pending_istringstream)
  have "request_of_line url_decode a0 line =
      (case drop 1 ws of [] \<Rightarrow> [] | t # _ \<Rightarrow> t,
       case drop 3 ws of [] \<Rightarrow> [] | t # _ \<Rightarrow> t,
       case drop 5 ws of [] \<Rightarrow> a0 | t # _ \<Rightarrow> fst (fst (num_get t)))"
    unfolding request_of_line_def split_def Let_def url2_def [symmetric] ws_def normalized_def
    by (simp add: extract_string_value extract_string_pending extract_uint_value
        pending_istringstream tl_drop_Suc tl_drop_1 eval_nat_numeral)
  also have "\<dots> = (if 2 \<le> length ws then ws ! 1 else [],
          if 4 \<le> length ws then ws ! 3 else [],
          if 6 \<le> length ws then fst (fst (num_get (ws ! 5))) else a0)"
    by (simp add: case_drop)
  finally show ?thesis
    unfolding ws_def url2 ts_def by (simp add: Let_def)
qed

text \<open>
  The request line of a browser: the second token is the target, and its second, fourth
  and sixth token are the verb, the symbol and the amount. The field names play no part:
  with other names in their places the same request comes out.
\<close>

theorem positional_fields_witness:
  "request_of_line (\<lambda>s. s) 0 ''GET /t?trans=create&stock=ABC&a=100 HTTP/1.1'' =
     (''create'', ''ABC'', 100)
   \<and> request_of_line (\<lambda>s. s) 0 ''GET /t?p=create&q=ABC&r=100 HTTP/1.1'' =
     (''create'', ''ABC'', 100)"
  using
    positional_fields [of "\<lambda>s. s" 0 "''GET /t?trans=create&stock=ABC&a=100 HTTP/1.1''"]
    positional_fields [of "\<lambda>s. s" 0 "''GET /t?p=create&q=ABC&r=100 HTTP/1.1''"]
  by (simp add: normalized_def replace_def tokens.simps isspace_def num_get_def isdigit_def
      digits_def decimal_value_def digit_value_def)

section \<open>The scenario of the specification, end to end\<close>

lemmas stream_eval = request_of_line_def extract_string_def extract_uint_def sentry_def good_def
  istringstream_def replace_def isspace_def num_get_def isdigit_def digits_def
  decimal_value_def digit_value_def

lemmas ledger_eval = process_def createS_def buyS_def sellS_def statusS_def resetS_def
  found_iff subscript_def Stock0_def to_string_def dec.simps digits_def

text \<open>A request that is a single line with no line feed: nothing is left to read.\<close>

lemma clientThread_one_line:
  assumes "CHR 0x0A \<notin> set line"
  shows "clientThread url_decode a0 line m =
     (let (trans', stock, a) = request_of_line url_decode a0 line;
          (data, m1) = process trans' stock a m
      in (([], format HTTPRespHeader (dec (length data)) @ data), m1))"
proof -
  from assms have tw: "takeWhile (\<lambda>c. c \<noteq> CHR 0x0A) line = line"
    by auto
  have "getline line = (line \<noteq> [], line, [])"
    unfolding getline_def Let_def tw by simp
  moreover have "skip_headers [] = []"
    by (simp add: skip_headers.simps getline_def)
  ultimately show ?thesis
    by (simp add: clientThread_def)
qed

text \<open>
  The requests of the scenario, their fields, the answers of \<open>process\<close> and the tables,
  and then the whole exchange: the decoder is the identity, as no target has an escape.
  The request for the status carries no amount, so \<open>a\<close> keeps the value it had (here 0).
\<close>

lemma scenario_requests:
  "request_of_line (\<lambda>s. s) 0 ''GET /t?trans=create&stock=ABC&a=100 HTTP/1.1'' = (''create'', ''ABC'', 100)"
  "request_of_line (\<lambda>s. s) 0 ''GET /t?trans=buy&stock=ABC&a=30 HTTP/1.1'' = (''buy'', ''ABC'', 30)"
  "request_of_line (\<lambda>s. s) 0 ''GET /t?trans=status&stock=ABC HTTP/1.1'' = (''status'', ''ABC'', 0)"
  "request_of_line (\<lambda>s. s) 0 ''GET /t?trans=reset HTTP/1.1'' = (''reset'', [], 0)"
  "request_of_line (\<lambda>s. s) 0 ''GET /t?trans=frobnicate HTTP/1.1'' = (''frobnicate'', [], 0)"
  by (simp_all add: stream_eval)

lemma scenario_answers:
  "process ''create'' ''ABC'' 100 Map.empty =
     (''Stock ABC created with balance = 100'', [''ABC'' \<mapsto> \<lparr>name = ''ABC'', balance = 100\<rparr>])"
  "process ''create'' ''ABC'' 100 [''ABC'' \<mapsto> \<lparr>name = ''ABC'', balance = 100\<rparr>] =
     (''Stock ABC already exists'', [''ABC'' \<mapsto> \<lparr>name = ''ABC'', balance = 100\<rparr>])"
  "process ''buy'' ''ABC'' 30 [''ABC'' \<mapsto> \<lparr>name = ''ABC'', balance = 100\<rparr>] =
     (''Stock ABC'' @ [CHR 0x27] @ ''s balance updated'', [''ABC'' \<mapsto> \<lparr>name = ''ABC'', balance = 70\<rparr>])"
  "process ''status'' ''ABC'' 0 [''ABC'' \<mapsto> \<lparr>name = ''ABC'', balance = 70\<rparr>] =
     (''Balance for stock ABC = 70'', [''ABC'' \<mapsto> \<lparr>name = ''ABC'', balance = 70\<rparr>])"
  "process ''reset'' [] 0 [''ABC'' \<mapsto> \<lparr>name = ''ABC'', balance = 70\<rparr>] = (''Stocks reset'', Map.empty)"
  "process ''status'' ''ABC'' 0 Map.empty = (''Stock not found'', Map.empty)"
  "process ''frobnicate'' [] 0 Map.empty = (''Invalid request'', Map.empty)"
  by (simp_all add: ledger_eval)

lemma end_to_end_scenario:
  "clientThread (\<lambda>s. s) 0 ''GET /t?trans=create&stock=ABC&a=100 HTTP/1.1'' Map.empty =
     (([], format HTTPRespHeader ''36'' @ ''Stock ABC created with balance = 100''),
      [''ABC'' \<mapsto> \<lparr>name = ''ABC'', balance = 100\<rparr>])"
  "clientThread (\<lambda>s. s) 0 ''GET /t?trans=create&stock=ABC&a=100 HTTP/1.1''
       [''ABC'' \<mapsto> \<lparr>name = ''ABC'', balance = 100\<rparr>] =
     (([], format HTTPRespHeader ''24'' @ ''Stock ABC already exists''),
      [''ABC'' \<mapsto> \<lparr>name = ''ABC'', balance = 100\<rparr>])"
  "clientThread (\<lambda>s. s) 0 ''GET /t?trans=buy&stock=ABC&a=30 HTTP/1.1''
       [''ABC'' \<mapsto> \<lparr>name = ''ABC'', balance = 100\<rparr>] =
     (([], format HTTPRespHeader ''27'' @ ''Stock ABC'' @ [CHR 0x27] @ ''s balance updated''),
      [''ABC'' \<mapsto> \<lparr>name = ''ABC'', balance = 70\<rparr>])"
  "clientThread (\<lambda>s. s) 0 ''GET /t?trans=status&stock=ABC HTTP/1.1''
       [''ABC'' \<mapsto> \<lparr>name = ''ABC'', balance = 70\<rparr>] =
     (([], format HTTPRespHeader ''26'' @ ''Balance for stock ABC = 70''),
      [''ABC'' \<mapsto> \<lparr>name = ''ABC'', balance = 70\<rparr>])"
  "clientThread (\<lambda>s. s) 0 ''GET /t?trans=reset HTTP/1.1''
       [''ABC'' \<mapsto> \<lparr>name = ''ABC'', balance = 70\<rparr>] =
     (([], format HTTPRespHeader ''12'' @ ''Stocks reset''), Map.empty)"
  "clientThread (\<lambda>s. s) 0 ''GET /t?trans=status&stock=ABC HTTP/1.1'' Map.empty =
     (([], format HTTPRespHeader ''15'' @ ''Stock not found''), Map.empty)"
  "clientThread (\<lambda>s. s) 0 ''GET /t?trans=frobnicate HTTP/1.1'' Map.empty =
     (([], format HTTPRespHeader ''15'' @ ''Invalid request''), Map.empty)"
  using scenario_requests scenario_answers
  by (simp_all add: clientThread_one_line dec.simps digits_def)

end
